theory Spec2Isabelle
  imports Complex_Main "HOL-Library.Word"
begin

unbundle bit_operations_syntax

section \<open>The capsule adapter of usdImaging (capsuleAdapter.cpp)\<close>

subsection \<open>Data\<close>

text \<open>
  Tokens and paths are strings. \<open>HdDirtyBits\<close> is a 32-bit mask. A time code is either the
  default time or a numeric frame. The doubles and floats of the source are only stored,
  copied and handed on by this file (no arithmetic is done on them), so they are modelled
  as reals; \<open>size_t\<close> counts are naturals for the same reason.
\<close>

type_synonym TfToken = string
type_synonym SdfPath = string
type_synonym HdDirtyBits = "32 word"
type_synonym GfVec3f = "real \<times> real \<times> real"
type_synonym GfMatrix4d = "real list list"

datatype UsdTimeCode = DefaultTime | TimeCode real

record PxOsdMeshTopology =
  faceVertexCounts :: "int list"
  faceVertexIndices :: "int list"

datatype HdMeshTopology = HdMeshTopology PxOsdMeshTopology

datatype VtValue =
    VtDouble real
  | VtTfToken TfToken
  | VtVec3fArray "GfVec3f list"
  | VtMeshTopology HdMeshTopology

text \<open>The two schema versions of the capsule: the legacy single-radius schema
  \<open>UsdGeomCapsule\<close> and the dual-radius schema \<open>UsdGeomCapsule_1\<close>.\<close>

datatype SchemaType = UsdGeomCapsule | UsdGeomCapsule_1

text \<open>
  A scene primitive, seen through the narrow interface the adapter consumes: its path, the
  answer of \<open>prim.IsA<T>()\<close> for each schema type, the value of a named attribute at a time
  (\<open>None\<close> when the attribute is absent or has no value there), and whether a named
  attribute might be time-varying.
\<close>

record UsdPrim =
  GetPath :: SdfPath
  IsA :: "SchemaType \<Rightarrow> bool"
  GetAttributeValue :: "TfToken \<Rightarrow> UsdTimeCode \<Rightarrow> VtValue option"
  ValueMightBeTimeVarying :: "TfToken \<Rightarrow> bool"

text \<open>
  What the adapter uses and this file does not define: the resolution constants of the
  adapter's header, the capsule mesh generator of geomUtil, the implicit basis of the
  gprim adapter, the \<open>DirtyPoints\<close> bit of the change tracker and the two base-class
  methods the adapter delegates to. They are parameters of the model.
\<close>

record Collaborators =
  numRadial :: nat
  numCapAxial :: nat
  ComputeNumPoints :: "nat \<Rightarrow> nat \<Rightarrow> nat"
  GenerateTopology :: "nat \<Rightarrow> nat \<Rightarrow> PxOsdMeshTopology"
  GeneratePoints :: "nat \<Rightarrow> nat \<Rightarrow> real \<Rightarrow> real \<Rightarrow> real \<Rightarrow> real \<Rightarrow> GfMatrix4d \<Rightarrow> GfVec3f list"
  GetImplicitBasis :: "TfToken \<Rightarrow> GfMatrix4d"
  DirtyPoints :: HdDirtyBits
  BaseAdapter_TrackVariability :: "UsdPrim \<Rightarrow> SdfPath \<Rightarrow> HdDirtyBits \<Rightarrow> HdDirtyBits"
  BaseAdapter_ProcessPropertyChange :: "UsdPrim \<Rightarrow> SdfPath \<Rightarrow> TfToken \<Rightarrow> HdDirtyBits"

text \<open>Modelled from the spec: the attribute-name tokens of \<open>UsdGeomTokens\<close> (usdGeom/tokens.h
  is not among the sources); the names are the ones the specification uses.\<close>

definition UsdGeomTokens_height :: TfToken where
  "UsdGeomTokens_height = ''height''"

definition UsdGeomTokens_radius :: TfToken where
  "UsdGeomTokens_radius = ''radius''"

definition UsdGeomTokens_radiusBottom :: TfToken where
  "UsdGeomTokens_radiusBottom = ''radiusBottom''"

definition UsdGeomTokens_radiusTop :: TfToken where
  "UsdGeomTokens_radiusTop = ''radiusTop''"

definition UsdGeomTokens_axis :: TfToken where
  "UsdGeomTokens_axis = ''axis''"

definition UsdGeomTokens_z :: TfToken where
  "UsdGeomTokens_z = ''Z''"

subsection \<open>Change processing\<close>

text \<open>\<open>UsdImagingCapsuleAdapter::ProcessPropertyChange\<close> (lines 156-169).\<close>

definition ProcessPropertyChange ::
  "Collaborators \<Rightarrow> UsdPrim \<Rightarrow> SdfPath \<Rightarrow> TfToken \<Rightarrow> HdDirtyBits" where
  "ProcessPropertyChange env prim cachePath propertyName =
     (if propertyName = UsdGeomTokens_height \<or>
         propertyName = UsdGeomTokens_radius \<or>
         propertyName = UsdGeomTokens_axis
      then DirtyPoints env
      else BaseAdapter_ProcessPropertyChange env prim cachePath propertyName)"

subsection \<open>Variability tracking\<close>

text \<open>Modelled from the spec: \<open>_IsVarying\<close>, a helper of the base prim adapter that is not
  among the sources. It queries the description for whether the named attribute might be
  time-varying and, if so, sets the given flag in the accumulated bits. The adapter always
  calls it with \<open>inherited = false\<close>, so only the primitive itself is asked. The second
  component of the state lists the attribute names queried so far, in call order.\<close>

definition IsVarying ::
  "UsdPrim \<Rightarrow> TfToken \<Rightarrow> HdDirtyBits \<Rightarrow> HdDirtyBits \<times> TfToken list
     \<Rightarrow> HdDirtyBits \<times> TfToken list" where
  "IsVarying prim attrName dirtyFlag st =
     (if ValueMightBeTimeVarying prim attrName
      then (fst st OR dirtyFlag, snd st @ [attrName])
      else (fst st, snd st @ [attrName]))"

text \<open>\<open>UsdImagingCapsuleAdapter::TrackVariability\<close> (lines 124-154). The result is the
  updated \<open>*timeVaryingBits\<close> together with the attribute names this method passed to
  \<open>_IsVarying\<close>, in order.\<close>

definition TrackVariability ::
  "Collaborators \<Rightarrow> UsdPrim \<Rightarrow> SdfPath \<Rightarrow> HdDirtyBits \<Rightarrow> HdDirtyBits \<times> TfToken list" where
  "TrackVariability env prim cachePath timeVaryingBits =
     (let s0 = (BaseAdapter_TrackVariability env prim cachePath timeVaryingBits, []);
          s1 = (if fst s0 AND DirtyPoints env = 0
                then IsVarying prim UsdGeomTokens_height (DirtyPoints env) s0 else s0);
          s2 = (if fst s1 AND DirtyPoints env = 0
                then IsVarying prim UsdGeomTokens_radius (DirtyPoints env) s1 else s1);
          s3 = (if fst s2 AND DirtyPoints env = 0
                then IsVarying prim UsdGeomTokens_axis (DirtyPoints env) s2 else s2)
      in s3)"

subsection \<open>Reading the shape parameters\<close>

text \<open>Modelled from the spec: \<open>UsdAttribute::Get\<close> at a value type (the attribute classes are
  not among the sources). It succeeds when the attribute has a value of that type at the
  requested time; on failure the caller's variable is left as it was.\<close>

definition Get_double :: "UsdPrim \<Rightarrow> TfToken \<Rightarrow> UsdTimeCode \<Rightarrow> real option" where
  "Get_double prim name time =
     (case GetAttributeValue prim name time of
        Some (VtDouble d) \<Rightarrow> Some d
      | _ \<Rightarrow> None)"

definition Get_TfToken :: "UsdPrim \<Rightarrow> TfToken \<Rightarrow> UsdTimeCode \<Rightarrow> TfToken option" where
  "Get_TfToken prim name time =
     (case GetAttributeValue prim name time of
        Some (VtTfToken a) \<Rightarrow> Some a
      | _ \<Rightarrow> None)"

text \<open>What the reading code does besides returning values, in program order: a type
  query \<open>IsA<T>\<close>, the read of a named attribute, and a \<open>TF_WARN\<close> diagnostic.\<close>

datatype Event =
    is_TypeQuery: TypeQuery SchemaType
  | is_AttrRead: AttrRead TfToken
  | is_TF_WARN: TF_WARN string

text \<open>The four output references of \<open>extractCapsuleParameters\<close>, and the events so far.\<close>

record CapsuleOut =
  heightOut :: real
  radiusBottomOut :: real
  radiusTopOut :: real
  axisOut :: TfToken
  events :: "Event list"

text \<open>\<open>extractRadii(UsdGeomCapsule const&, ...)\<close> (lines 171-179).\<close>

definition extractRadii_UsdGeomCapsule :: "UsdPrim \<Rightarrow> UsdTimeCode \<Rightarrow> CapsuleOut \<Rightarrow> CapsuleOut" where
  "extractRadii_UsdGeomCapsule capsule time s =
     (case Get_double capsule UsdGeomTokens_radius time of
        None \<Rightarrow> s\<lparr>events := events s @
           [AttrRead UsdGeomTokens_radius,
            TF_WARN (''Could not evaluate double-valued radius attribute on prim '' @ GetPath capsule)]\<rparr>
      | Some r \<Rightarrow> s\<lparr>radiusBottomOut := r, radiusTopOut := r,
           events := events s @ [AttrRead UsdGeomTokens_radius]\<rparr>)"

text \<open>\<open>extractRadii(UsdGeomCapsule_1 const&, ...)\<close> (lines 182-192).\<close>

definition extractRadii_UsdGeomCapsule_1 :: "UsdPrim \<Rightarrow> UsdTimeCode \<Rightarrow> CapsuleOut \<Rightarrow> CapsuleOut" where
  "extractRadii_UsdGeomCapsule_1 capsule time s =
     (let s1 = (case Get_double capsule UsdGeomTokens_radiusBottom time of
                  None \<Rightarrow> s\<lparr>events := events s @
                     [AttrRead UsdGeomTokens_radiusBottom,
                      TF_WARN (''Could not evaluate double-valued bottom radius attribute on prim ''
                               @ GetPath capsule)]\<rparr>
                | Some r \<Rightarrow> s\<lparr>radiusBottomOut := r,
                     events := events s @ [AttrRead UsdGeomTokens_radiusBottom]\<rparr>)
      in (case Get_double capsule UsdGeomTokens_radiusTop time of
            None \<Rightarrow> s1\<lparr>events := events s1 @
               [AttrRead UsdGeomTokens_radiusTop,
                TF_WARN (''Could not evaluate double-valued top radius attribute on prim ''
                         @ GetPath capsule)]\<rparr>
          | Some r \<Rightarrow> s1\<lparr>radiusTopOut := r,
               events := events s1 @ [AttrRead UsdGeomTokens_radiusTop]\<rparr>))"

text \<open>Overload resolution of \<open>extractRadii\<close> on the template argument.\<close>

fun extractRadii :: "SchemaType \<Rightarrow> UsdPrim \<Rightarrow> UsdTimeCode \<Rightarrow> CapsuleOut \<Rightarrow> CapsuleOut" where
  "extractRadii UsdGeomCapsule = extractRadii_UsdGeomCapsule"
| "extractRadii UsdGeomCapsule_1 = extractRadii_UsdGeomCapsule_1"

text \<open>\<open>extractCapsuleParameters<CapsuleType>\<close> (lines 194-215).\<close>

definition extractCapsuleParameters ::
  "SchemaType \<Rightarrow> UsdPrim \<Rightarrow> UsdTimeCode \<Rightarrow> CapsuleOut \<Rightarrow> CapsuleOut" where
  "extractCapsuleParameters CapsuleType prim time s =
     (if \<not> IsA prim CapsuleType
      then s\<lparr>events := events s @ [TypeQuery CapsuleType]\<rparr>
      else
        (let s0 = s\<lparr>events := events s @ [TypeQuery CapsuleType]\<rparr>;
             s1 = (case Get_double prim UsdGeomTokens_height time of
                     None \<Rightarrow> s0\<lparr>events := events s0 @
                        [AttrRead UsdGeomTokens_height,
                         TF_WARN (''Could not evaluate double-valued height attribute on prim ''
                                  @ GetPath prim)]\<rparr>
                   | Some h \<Rightarrow> s0\<lparr>heightOut := h,
                        events := events s0 @ [AttrRead UsdGeomTokens_height]\<rparr>);
             s2 = extractRadii CapsuleType prim time s1
         in (case Get_TfToken prim UsdGeomTokens_axis time of
               None \<Rightarrow> s2\<lparr>events := events s2 @
                  [AttrRead UsdGeomTokens_axis,
                   TF_WARN (''Could not evaluate token-valued axis attribute on prim ''
                            @ GetPath prim)]\<rparr>
             | Some a \<Rightarrow> s2\<lparr>axisOut := a,
                  events := events s2 @ [AttrRead UsdGeomTokens_axis]\<rparr>)))"

subsection \<open>Points and topology\<close>

text \<open>The first part of \<open>GetPoints\<close> (lines 226-233): the built-in defaults, then the two
  extractions in the order the source makes them.\<close>

definition GetPoints_parameters :: "UsdPrim \<Rightarrow> UsdTimeCode \<Rightarrow> CapsuleOut" where
  "GetPoints_parameters prim time =
     (let s0 = \<lparr>heightOut = 2, radiusBottomOut = 1/2, radiusTopOut = 1/2,
                axisOut = UsdGeomTokens_z, events = []\<rparr>;
          s1 = extractCapsuleParameters UsdGeomCapsule prim time s0
      in extractCapsuleParameters UsdGeomCapsule_1 prim time s1)"

text \<open>The generator writes its points through the output iterator \<open>points.begin()\<close>, one
  element after the other. Writing past the end of the array is undefined behaviour in
  the source; here it is the result \<open>None\<close>.\<close>

fun write_through_iterator :: "'a list \<Rightarrow> 'a list \<Rightarrow> 'a list option" where
  "write_through_iterator buf [] = Some buf"
| "write_through_iterator [] (x # xs) = None"
| "write_through_iterator (b # buf) (x # xs) =
     map_option ((#) x) (write_through_iterator buf xs)"

text \<open>\<open>UsdImagingCapsuleAdapter::GetPoints\<close> (lines 218-257): the returned value and the
  events of the parameter reads.\<close>

definition GetPoints ::
  "Collaborators \<Rightarrow> UsdPrim \<Rightarrow> UsdTimeCode \<Rightarrow> VtValue option \<times> Event list" where
  "GetPoints env prim time =
     (let s = GetPoints_parameters prim time;
          basis = GetImplicitBasis env (axisOut s);
          numPoints = ComputeNumPoints env (numRadial env) (numCapAxial env);
          points = replicate numPoints ((0, 0, 0) :: GfVec3f);
          sweep = 360
      in (map_option VtVec3fArray
            (write_through_iterator points
               (GeneratePoints env (numRadial env) (numCapAxial env)
                  (radiusBottomOut s) (radiusTopOut s) (heightOut s) sweep basis)),
          events s))"

text \<open>\<open>UsdImagingCapsuleAdapter::GetTopology\<close> (lines 259-274). The function-local static
  is built once from the two resolution constants; every call returns it.\<close>

definition GetTopology :: "Collaborators \<Rightarrow> UsdPrim \<Rightarrow> SdfPath \<Rightarrow> UsdTimeCode \<Rightarrow> VtValue" where
  "GetTopology env prim cachePath time =
     VtMeshTopology (HdMeshTopology (GenerateTopology env (numRadial env) (numCapAxial env)))"

subsection \<open>Sample collaborators and primitives\<close>

text \<open>A small generator: resolution 3 by 1, eight points, each point recording the two
  radii and the height it was asked for, or the sweep when the sweep is not 360.\<close>

definition sampleEnv :: Collaborators where
  "sampleEnv =
     \<lparr>numRadial = 3, numCapAxial = 1,
      ComputeNumPoints = (\<lambda>r c. 2 * c * r + 2),
      GenerateTopology = (\<lambda>r c. \<lparr>faceVertexCounts = replicate r 3,
                                    faceVertexIndices = map int [0..<3 * r]\<rparr>),
      GeneratePoints = (\<lambda>r c rb rt h sw b.
         replicate (2 * c * r + 2) (if sw = 360 then (rb, rt, h) else (sw, sw, sw))),
      GetImplicitBasis = (\<lambda>a. if a = ''X'' then [[0,1,0,0],[0,0,1,0],[1,0,0,0],[0,0,0,1]]
                              else if a = ''Y'' then [[0,0,1,0],[1,0,0,0],[0,1,0,0],[0,0,0,1]]
                              else [[1,0,0,0],[0,1,0,0],[0,0,1,0],[0,0,0,1]]),
      DirtyPoints = 32,
      BaseAdapter_TrackVariability = (\<lambda>p c bits. bits),
      BaseAdapter_ProcessPropertyChange = (\<lambda>p c n. if n = ''visibility'' then 128 else 0)\<rparr>"

text \<open>A legacy capsule with height 2 and radius 1/2 and no axis authored.\<close>

definition legacyPrim :: UsdPrim where
  "legacyPrim =
     \<lparr>GetPath = ''/World/legacy'',
      IsA = (\<lambda>T. T = UsdGeomCapsule),
      GetAttributeValue = (\<lambda>n t.
         if n = ''height'' then Some (VtDouble 2)
         else if n = ''radius'' then Some (VtDouble (1/2))
         else None),
      ValueMightBeTimeVarying = (\<lambda>n. False)\<rparr>"

text \<open>A dual-radius capsule with height 2, both radii 1/2 and axis Z.\<close>

definition dualPrim :: UsdPrim where
  "dualPrim =
     \<lparr>GetPath = ''/World/dual'',
      IsA = (\<lambda>T. T = UsdGeomCapsule_1),
      GetAttributeValue = (\<lambda>n t.
         if n = ''height'' then Some (VtDouble 2)
         else if n = ''radiusBottom'' then Some (VtDouble (1/2))
         else if n = ''radiusTop'' then Some (VtDouble (1/2))
         else if n = ''axis'' then Some (VtTfToken ''Z'')
         else None),
      ValueMightBeTimeVarying = (\<lambda>n. False)\<rparr>"

text \<open>A dual-radius capsule whose bottom radius holds a token where a double is expected,
  so that it cannot be read as a double; height 3, top radius 1/4, axis X.\<close>

definition partialPrim :: UsdPrim where
  "partialPrim =
     \<lparr>GetPath = ''/World/partial'',
      IsA = (\<lambda>T. T = UsdGeomCapsule_1),
      GetAttributeValue = (\<lambda>n t.
         if n = ''height'' then Some (VtDouble 3)
         else if n = ''radiusBottom'' then Some (VtTfToken ''wide'')
         else if n = ''radiusTop'' then Some (VtDouble (1/4))
         else if n = ''axis'' then Some (VtTfToken ''X'')
         else None),
      ValueMightBeTimeVarying = (\<lambda>n. False)\<rparr>"

text \<open>A primitive of neither capsule schema that nevertheless carries capsule-like
  attributes.\<close>

definition otherPrim :: UsdPrim where
  "otherPrim =
     \<lparr>GetPath = ''/World/other'',
      IsA = (\<lambda>T. False),
      GetAttributeValue = (\<lambda>n t.
         if n = ''height'' then Some (VtDouble 5)
         else if n = ''radius'' then Some (VtDouble 7)
         else if n = ''axis'' then Some (VtTfToken ''Y'')
         else None),
      ValueMightBeTimeVarying = (\<lambda>n. False)\<rparr>"

text \<open>A legacy capsule whose height is animated (its value is the frame number); radius
  and axis are constant.\<close>

definition animatedHeightPrim :: UsdPrim where
  "animatedHeightPrim =
     \<lparr>GetPath = ''/World/animatedHeight'',
      IsA = (\<lambda>T. T = UsdGeomCapsule),
      GetAttributeValue = (\<lambda>n t.
         if n = ''height'' then Some (VtDouble (case t of DefaultTime \<Rightarrow> 2 | TimeCode f \<Rightarrow> f))
         else if n = ''radius'' then Some (VtDouble (1/2))
         else if n = ''axis'' then Some (VtTfToken ''Z'')
         else None),
      ValueMightBeTimeVarying = (\<lambda>n. n = ''height'')\<rparr>"

text \<open>A dual-radius capsule whose top radius is animated (its value is the frame number);
  height, bottom radius and axis are constant.\<close>

definition animatedDualPrim :: UsdPrim where
  "animatedDualPrim =
     \<lparr>GetPath = ''/World/animatedDual'',
      IsA = (\<lambda>T. T = UsdGeomCapsule_1),
      GetAttributeValue = (\<lambda>n t.
         if n = ''height'' then Some (VtDouble 2)
         else if n = ''radiusBottom'' then Some (VtDouble (1/2))
         else if n = ''radiusTop'' then Some (VtDouble (case t of DefaultTime \<Rightarrow> 1/2 | TimeCode f \<Rightarrow> f))
         else if n = ''axis'' then Some (VtTfToken ''Z'')
         else None),
      ValueMightBeTimeVarying = (\<lambda>n. n = ''radiusTop'')\<rparr>"

text \<open>Two more legacy capsules: one whose radius alone is animated, one whose axis alone
  is animated.\<close>

definition animatedRadiusPrim :: UsdPrim where
  "animatedRadiusPrim =
     \<lparr>GetPath = ''/World/animatedRadius'',
      IsA = (\<lambda>T. T = UsdGeomCapsule),
      GetAttributeValue = (\<lambda>n t.
         if n = ''height'' then Some (VtDouble 2)
         else if n = ''radius'' then Some (VtDouble (case t of DefaultTime \<Rightarrow> 1/2 | TimeCode f \<Rightarrow> f))
         else if n = ''axis'' then Some (VtTfToken ''Z'')
         else None),
      ValueMightBeTimeVarying = (\<lambda>n. n = ''radius'')\<rparr>"

definition animatedAxisPrim :: UsdPrim where
  "animatedAxisPrim =
     \<lparr>GetPath = ''/World/animatedAxis'',
      IsA = (\<lambda>T. T = UsdGeomCapsule),
      GetAttributeValue = (\<lambda>n t.
         if n = ''height'' then Some (VtDouble 2)
         else if n = ''radius'' then Some (VtDouble (1/2))
         else if n = ''axis'' then Some (VtTfToken (case t of DefaultTime \<Rightarrow> ''Z'' | TimeCode f \<Rightarrow> ''X''))
         else None),
      ValueMightBeTimeVarying = (\<lambda>n. n = ''axis'')\<rparr>"

text \<open>A dual-radius capsule that carries a stale legacy \<open>radius\<close> of 7 and has no top
  radius authored.\<close>

definition staleRadiusPrim :: UsdPrim where
  "staleRadiusPrim =
     \<lparr>GetPath = ''/World/stale'',
      IsA = (\<lambda>T. T = UsdGeomCapsule_1),
      GetAttributeValue = (\<lambda>n t.
         if n = ''height'' then Some (VtDouble 3)
         else if n = ''radius'' then Some (VtDouble 7)
         else if n = ''radiusBottom'' then Some (VtDouble (1/4))
         else if n = ''axis'' then Some (VtTfToken ''Y'')
         else None),
      ValueMightBeTimeVarying = (\<lambda>n. False)\<rparr>"

section \<open>Properties\<close>

subsection \<open>Auxiliary facts\<close>

lemma write_through_iterator_eq:
  "write_through_iterator buf xs =
     (if length xs \<le> length buf then Some (xs @ drop (length xs) buf) else None)"
  by (induction buf xs rule: write_through_iterator.induct) auto

lemma write_through_iterator_length:
  "write_through_iterator buf xs = Some r \<Longrightarrow> length r = length buf"
  by (auto simp: write_through_iterator_eq split: if_splits)

lemma extract_not_IsA:
  "\<not> IsA prim T \<Longrightarrow>
     extractCapsuleParameters T prim time s = s\<lparr>events := events s @ [TypeQuery T]\<rparr>"
  by (simp add: extractCapsuleParameters_def)

lemma extract_legacy:
  "IsA prim UsdGeomCapsule \<Longrightarrow>
     extractCapsuleParameters UsdGeomCapsule prim time s =
       \<lparr>heightOut = (case Get_double prim UsdGeomTokens_height time of
                       None \<Rightarrow> heightOut s | Some h \<Rightarrow> h),
        radiusBottomOut = (case Get_double prim UsdGeomTokens_radius time of
                             None \<Rightarrow> radiusBottomOut s | Some r \<Rightarrow> r),
        radiusTopOut = (case Get_double prim UsdGeomTokens_radius time of
                          None \<Rightarrow> radiusTopOut s | Some r \<Rightarrow> r),
        axisOut = (case Get_TfToken prim UsdGeomTokens_axis time of
                     None \<Rightarrow> axisOut s | Some a \<Rightarrow> a),
        events = events s @ [TypeQuery UsdGeomCapsule, AttrRead UsdGeomTokens_height]
          @ (case Get_double prim UsdGeomTokens_height time of
               None \<Rightarrow> [TF_WARN (''Could not evaluate double-valued height attribute on prim ''
                                  @ GetPath prim)]
             | Some h \<Rightarrow> [])
          @ [AttrRead UsdGeomTokens_radius]
          @ (case Get_double prim UsdGeomTokens_radius time of
               None \<Rightarrow> [TF_WARN (''Could not evaluate double-valued radius attribute on prim ''
                                  @ GetPath prim)]
             | Some r \<Rightarrow> [])
          @ [AttrRead UsdGeomTokens_axis]
          @ (case Get_TfToken prim UsdGeomTokens_axis time of
               None \<Rightarrow> [TF_WARN (''Could not evaluate token-valued axis attribute on prim ''
                                  @ GetPath prim)]
             | Some a \<Rightarrow> [])\<rparr>"
  by (simp add: extractCapsuleParameters_def extractRadii_UsdGeomCapsule_def Let_def
      split: option.splits)

lemma extract_dual:
  "IsA prim UsdGeomCapsule_1 \<Longrightarrow>
     extractCapsuleParameters UsdGeomCapsule_1 prim time s =
       \<lparr>heightOut = (case Get_double prim UsdGeomTokens_height time of
                       None \<Rightarrow> heightOut s | Some h \<Rightarrow> h),
        radiusBottomOut = (case Get_double prim UsdGeomTokens_radiusBottom time of
                             None \<Rightarrow> radiusBottomOut s | Some r \<Rightarrow> r),
        radiusTopOut = (case Get_double prim UsdGeomTokens_radiusTop time of
                          None \<Rightarrow> radiusTopOut s | Some r \<Rightarrow> r),
        axisOut = (case Get_TfToken prim UsdGeomTokens_axis time of
                     None \<Rightarrow> axisOut s | Some a \<Rightarrow> a),
        events = events s @ [TypeQuery UsdGeomCapsule_1, AttrRead UsdGeomTokens_height]
          @ (case Get_double prim UsdGeomTokens_height time of
               None \<Rightarrow> [TF_WARN (''Could not evaluate double-valued height attribute on prim ''
                                  @ GetPath prim)]
             | Some h \<Rightarrow> [])
          @ [AttrRead UsdGeomTokens_radiusBottom]
          @ (case Get_double prim UsdGeomTokens_radiusBottom time of
               None \<Rightarrow> [TF_WARN (''Could not evaluate double-valued bottom radius attribute on prim ''
                                  @ GetPath prim)]
             | Some r \<Rightarrow> [])
          @ [AttrRead UsdGeomTokens_radiusTop]
          @ (case Get_double prim UsdGeomTokens_radiusTop time of
               None \<Rightarrow> [TF_WARN (''Could not evaluate double-valued top radius attribute on prim ''
                                  @ GetPath prim)]
             | Some r \<Rightarrow> [])
          @ [AttrRead UsdGeomTokens_axis]
          @ (case Get_TfToken prim UsdGeomTokens_axis time of
               None \<Rightarrow> [TF_WARN (''Could not evaluate token-valued axis attribute on prim ''
                                  @ GetPath prim)]
             | Some a \<Rightarrow> [])\<rparr>"
  by (simp add: extractCapsuleParameters_def extractRadii_UsdGeomCapsule_1_def Let_def
      split: option.splits)

lemmas token_defs =
  UsdGeomTokens_height_def UsdGeomTokens_radius_def UsdGeomTokens_radiusBottom_def
  UsdGeomTokens_radiusTop_def UsdGeomTokens_axis_def UsdGeomTokens_z_def

lemmas read_defs =
  GetPoints_parameters_def extractCapsuleParameters_def extractRadii_UsdGeomCapsule_def
  extractRadii_UsdGeomCapsule_1_def Get_double_def Get_TfToken_def token_defs

subsection \<open>Change processing\<close>

text \<open>
  C1. For every property name, \<open>ProcessPropertyChange\<close> returns a mask that contains the
  Points bit when the name is height, radius or axis, and for every other name it returns
  what the base adapter's mapping returns for that name.
\<close>

theorem ProcessPropertyChange_mapping:
  "(propertyName \<in> {UsdGeomTokens_height, UsdGeomTokens_radius, UsdGeomTokens_axis} \<longrightarrow>
      ProcessPropertyChange env prim cachePath propertyName AND DirtyPoints env = DirtyPoints env) \<and>
   (propertyName \<notin> {UsdGeomTokens_height, UsdGeomTokens_radius, UsdGeomTokens_axis} \<longrightarrow>
      ProcessPropertyChange env prim cachePath propertyName =
        BaseAdapter_ProcessPropertyChange env prim cachePath propertyName)"
  by (simp add: ProcessPropertyChange_def)

theorem ProcessPropertyChange_mapping_witness:
  "ProcessPropertyChange sampleEnv legacyPrim ''/World/legacy'' ''radius'' AND DirtyPoints sampleEnv
     = DirtyPoints sampleEnv \<and>
   ProcessPropertyChange sampleEnv legacyPrim ''/World/legacy'' ''visibility'' = 128"
  using ProcessPropertyChange_mapping [of "''radius''" sampleEnv legacyPrim "''/World/legacy''"]
    ProcessPropertyChange_mapping [of "''visibility''" sampleEnv legacyPrim "''/World/legacy''"]
  by (simp add: UsdGeomTokens_height_def UsdGeomTokens_radius_def UsdGeomTokens_axis_def
      sampleEnv_def)

subsection \<open>Topology\<close>

text \<open>
  C2. \<open>GetTopology\<close> is constant: for any two primitives, cache paths and times it returns
  the same topology, namely the one generated from the two resolution constants.
\<close>

theorem GetTopology_constant:
  "GetTopology env prim1 cachePath1 time1 = GetTopology env prim2 cachePath2 time2 \<and>
   GetTopology env prim1 cachePath1 time1 =
     VtMeshTopology (HdMeshTopology (GenerateTopology env (numRadial env) (numCapAxial env)))"
  by (simp add: GetTopology_def)

subsection \<open>Points\<close>

text \<open>
  C3. The points array returned by \<open>GetPoints\<close> has exactly
  \<open>ComputeNumPoints(numRadial, numCapAxial)\<close> elements, whatever the two resolution
  constants are (in particular for an angular resolution of at least 3 and a cap resolution
  of at least 1): whenever \<open>GetPoints\<close> returns an array it has that length, and it does
  return one as soon as the generator writes no more points than the array holds.
\<close>

theorem GetPoints_length:
  "(\<forall>pts. fst (GetPoints env prim time) = Some (VtVec3fArray pts) \<longrightarrow>
      length pts = ComputeNumPoints env (numRadial env) (numCapAxial env)) \<and>
   ((\<forall>rb rt h sw b.
        length (GeneratePoints env (numRadial env) (numCapAxial env) rb rt h sw b)
          \<le> ComputeNumPoints env (numRadial env) (numCapAxial env)) \<longrightarrow>
    (\<exists>pts. fst (GetPoints env prim time) = Some (VtVec3fArray pts) \<and>
       length pts = ComputeNumPoints env (numRadial env) (numCapAxial env)))"
proof (intro conjI allI impI)
  fix pts
  assume "fst (GetPoints env prim time) = Some (VtVec3fArray pts)"
  then obtain r where
    "write_through_iterator
       (replicate (ComputeNumPoints env (numRadial env) (numCapAxial env)) ((0, 0, 0) :: GfVec3f))
       (GeneratePoints env (numRadial env) (numCapAxial env)
          (radiusBottomOut (GetPoints_parameters prim time))
          (radiusTopOut (GetPoints_parameters prim time))
          (heightOut (GetPoints_parameters prim time)) 360
          (GetImplicitBasis env (axisOut (GetPoints_parameters prim time)))) = Some r"
    and "r = pts"
    by (auto simp: GetPoints_def Let_def)
  then show "length pts = ComputeNumPoints env (numRadial env) (numCapAxial env)"
    using write_through_iterator_length by fastforce
next
  assume fits: "\<forall>rb rt h sw b.
        length (GeneratePoints env (numRadial env) (numCapAxial env) rb rt h sw b)
          \<le> ComputeNumPoints env (numRadial env) (numCapAxial env)"
  then show "\<exists>pts. fst (GetPoints env prim time) = Some (VtVec3fArray pts) \<and>
       length pts = ComputeNumPoints env (numRadial env) (numCapAxial env)"
    by (simp add: GetPoints_def Let_def write_through_iterator_eq)
qed

theorem GetPoints_length_witness:
  "\<exists>pts. fst (GetPoints sampleEnv partialPrim (TimeCode 1)) = Some (VtVec3fArray pts) \<and>
     length pts = 8"
proof -
  have fits: "\<forall>rb rt h sw b.
        length (GeneratePoints sampleEnv (numRadial sampleEnv) (numCapAxial sampleEnv) rb rt h sw b)
          \<le> ComputeNumPoints sampleEnv (numRadial sampleEnv) (numCapAxial sampleEnv)"
    by (simp add: sampleEnv_def)
  have n: "ComputeNumPoints sampleEnv (numRadial sampleEnv) (numCapAxial sampleEnv) = 8"
    by (simp add: sampleEnv_def)
  show ?thesis
    using GetPoints_length [of sampleEnv partialPrim "TimeCode 1"] fits n by simp
qed

subsection \<open>Variability tracking\<close>

text \<open>
  C4. \<open>TrackVariability\<close> short-circuits on the Points bit. When the bit is already set in
  \<open>*timeVaryingBits\<close> at the guards (that is, after the base class has run), the method
  makes no variability check at all and leaves the bits as they are. Otherwise it checks
  height, radius and axis in this order and stops at the first one that is time-varying:
  that check sets the Points bit and no later attribute is queried. So with height
  varying only height is queried, with radius the first varying one only height and
  radius are, and axis is reached only when neither height nor radius varies.
\<close>

theorem TrackVariability_short_circuit:
  "(BaseAdapter_TrackVariability env prim cachePath bits AND DirtyPoints env \<noteq> 0 \<longrightarrow>
      TrackVariability env prim cachePath bits =
        (BaseAdapter_TrackVariability env prim cachePath bits, [])) \<and>
   (DirtyPoints env \<noteq> 0 \<longrightarrow>
      TrackVariability env prim cachePath bits =
        (if BaseAdapter_TrackVariability env prim cachePath bits AND DirtyPoints env \<noteq> 0
         then (BaseAdapter_TrackVariability env prim cachePath bits, [])
         else if ValueMightBeTimeVarying prim UsdGeomTokens_height
         then (BaseAdapter_TrackVariability env prim cachePath bits OR DirtyPoints env,
               [UsdGeomTokens_height])
         else if ValueMightBeTimeVarying prim UsdGeomTokens_radius
         then (BaseAdapter_TrackVariability env prim cachePath bits OR DirtyPoints env,
               [UsdGeomTokens_height, UsdGeomTokens_radius])
         else if ValueMightBeTimeVarying prim UsdGeomTokens_axis
         then (BaseAdapter_TrackVariability env prim cachePath bits OR DirtyPoints env,
               [UsdGeomTokens_height, UsdGeomTokens_radius, UsdGeomTokens_axis])
         else (BaseAdapter_TrackVariability env prim cachePath bits,
               [UsdGeomTokens_height, UsdGeomTokens_radius, UsdGeomTokens_axis])))"
  by (simp add: TrackVariability_def IsVarying_def Let_def bit.conj_disj_distrib2)

theorem TrackVariability_short_circuit_witness:
  "TrackVariability sampleEnv animatedHeightPrim ''/World/animatedHeight'' 32 = (32, []) \<and>
   TrackVariability sampleEnv animatedHeightPrim ''/World/animatedHeight'' 0 = (32, [''height'']) \<and>
   TrackVariability sampleEnv animatedRadiusPrim ''/World/animatedRadius'' 0 =
     (32, [''height'', ''radius'']) \<and>
   TrackVariability sampleEnv animatedAxisPrim ''/World/animatedAxis'' 0 =
     (32, [''height'', ''radius'', ''axis'']) \<and>
   TrackVariability sampleEnv legacyPrim ''/World/legacy'' 0 =
     (0, [''height'', ''radius'', ''axis''])"
proof -
  have b: "BaseAdapter_TrackVariability sampleEnv p c x = x" "DirtyPoints sampleEnv = 32" for p c x
    by (simp_all add: sampleEnv_def)
  show ?thesis
    using TrackVariability_short_circuit
          [of sampleEnv animatedHeightPrim "''/World/animatedHeight''" 32]
        TrackVariability_short_circuit
          [of sampleEnv animatedHeightPrim "''/World/animatedHeight''" 0]
        TrackVariability_short_circuit
          [of sampleEnv animatedRadiusPrim "''/World/animatedRadius''" 0]
        TrackVariability_short_circuit
          [of sampleEnv animatedAxisPrim "''/World/animatedAxis''" 0]
        TrackVariability_short_circuit
          [of sampleEnv legacyPrim "''/World/legacy''" 0]
    by (simp add: b animatedHeightPrim_def animatedRadiusPrim_def animatedAxisPrim_def
        legacyPrim_def token_defs)
qed

text \<open>
  C7. Every attribute that contributes to Points is to be checked: height, both radii
  and axis. \<open>TrackVariability\<close> queries height, radius and axis only, never
  \<open>radiusBottom\<close> or \<open>radiusTop\<close>. For a dual-radius capsule whose top radius is animated
  it queries those three names and leaves the Points bit clear, and yet \<open>GetPoints\<close>
  returns different points at frames 1 and 2.
\<close>

theorem TrackVariability_misses_dual_radii:
  "IsA animatedDualPrim UsdGeomCapsule_1 \<and>
   ValueMightBeTimeVarying animatedDualPrim UsdGeomTokens_radiusTop \<and>
   TrackVariability sampleEnv animatedDualPrim ''/World/animatedDual'' 0 =
     (0, [''height'', ''radius'', ''axis'']) \<and>
   fst (GetPoints sampleEnv animatedDualPrim (TimeCode 1)) \<noteq>
     fst (GetPoints sampleEnv animatedDualPrim (TimeCode 2))"
proof (intro conjI)
  show "IsA animatedDualPrim UsdGeomCapsule_1"
    by (simp add: animatedDualPrim_def)
  show "ValueMightBeTimeVarying animatedDualPrim UsdGeomTokens_radiusTop"
    by (simp add: animatedDualPrim_def token_defs)
  show "TrackVariability sampleEnv animatedDualPrim ''/World/animatedDual'' 0 =
     (0, [''height'', ''radius'', ''axis''])"
    by (simp add: TrackVariability_def IsVarying_def Let_def sampleEnv_def
        animatedDualPrim_def token_defs)
  show "fst (GetPoints sampleEnv animatedDualPrim (TimeCode 1)) \<noteq>
     fst (GetPoints sampleEnv animatedDualPrim (TimeCode 2))"
    by (simp add: GetPoints_def Let_def read_defs sampleEnv_def animatedDualPrim_def
        write_through_iterator_eq)
qed

subsection \<open>Schema versions\<close>

text \<open>
  C5. Legacy-schema equivalence. At every time, a primitive typed only under the legacy
  schema with height \<open>h\<close> and radius \<open>r\<close> and no axis authored (the axis read either fails or
  yields the fallback Z) gives through \<open>GetPoints\<close> the same points as a primitive typed
  only under the dual-radius schema with the same height, both radii \<open>r\<close> and axis Z; the
  claim's instance is \<open>h = 2\<close>, \<open>r = 1/2\<close>. The legacy extraction sets the bottom and the
  top radius to the single radius value.
\<close>

theorem legacy_dual_equivalence:
  assumes "IsA legacy UsdGeomCapsule" and "\<not> IsA legacy UsdGeomCapsule_1"
    and "Get_double legacy UsdGeomTokens_height time = Some h"
    and "Get_double legacy UsdGeomTokens_radius time = Some r"
    and "Get_TfToken legacy UsdGeomTokens_axis time = None \<or>
         Get_TfToken legacy UsdGeomTokens_axis time = Some UsdGeomTokens_z"
    and "IsA dual UsdGeomCapsule_1" and "\<not> IsA dual UsdGeomCapsule"
    and "Get_double dual UsdGeomTokens_height time = Some h"
    and "Get_double dual UsdGeomTokens_radiusBottom time = Some r"
    and "Get_double dual UsdGeomTokens_radiusTop time = Some r"
    and "Get_TfToken dual UsdGeomTokens_axis time = Some UsdGeomTokens_z"
  shows "fst (GetPoints env legacy time) = fst (GetPoints env dual time) \<and>
         radiusBottomOut (extractRadii_UsdGeomCapsule legacy time s) = r \<and>
         radiusTopOut (extractRadii_UsdGeomCapsule legacy time s) = r"
proof -
  let ?pl = "GetPoints_parameters legacy time" and ?pd = "GetPoints_parameters dual time"
  have l: "heightOut ?pl = h \<and> radiusBottomOut ?pl = r \<and> radiusTopOut ?pl = r \<and>
           axisOut ?pl = UsdGeomTokens_z"
    using assms(1-5)
    by (auto simp: GetPoints_parameters_def extract_legacy extract_not_IsA)
  have d: "heightOut ?pd = h \<and> radiusBottomOut ?pd = r \<and> radiusTopOut ?pd = r \<and>
           axisOut ?pd = UsdGeomTokens_z"
    using assms(6-11)
    by (simp add: GetPoints_parameters_def extract_dual extract_not_IsA)
  have "fst (GetPoints env legacy time) = fst (GetPoints env dual time)"
    by (simp add: GetPoints_def Let_def l d)
  moreover have "radiusBottomOut (extractRadii_UsdGeomCapsule legacy time s) = r \<and>
         radiusTopOut (extractRadii_UsdGeomCapsule legacy time s) = r"
    using assms(4) by (simp add: extractRadii_UsdGeomCapsule_def)
  ultimately show ?thesis by simp
qed

theorem legacy_dual_equivalence_witness:
  "fst (GetPoints sampleEnv legacyPrim (TimeCode 24)) =
     fst (GetPoints sampleEnv dualPrim (TimeCode 24)) \<and>
   radiusBottomOut (extractRadii_UsdGeomCapsule legacyPrim (TimeCode 24)
      \<lparr>heightOut = 2, radiusBottomOut = 9, radiusTopOut = 9, axisOut = ''Z'', events = []\<rparr>) = 1/2 \<and>
   radiusTopOut (extractRadii_UsdGeomCapsule legacyPrim (TimeCode 24)
      \<lparr>heightOut = 2, radiusBottomOut = 9, radiusTopOut = 9, axisOut = ''Z'', events = []\<rparr>) = 1/2"
proof -
  have a1: "IsA legacyPrim UsdGeomCapsule" and a2: "\<not> IsA legacyPrim UsdGeomCapsule_1"
    and a3: "Get_double legacyPrim UsdGeomTokens_height (TimeCode 24) = Some 2"
    and a4: "Get_double legacyPrim UsdGeomTokens_radius (TimeCode 24) = Some (1/2)"
    and a5: "Get_TfToken legacyPrim UsdGeomTokens_axis (TimeCode 24) = None \<or>
         Get_TfToken legacyPrim UsdGeomTokens_axis (TimeCode 24) = Some UsdGeomTokens_z"
    by (simp_all add: legacyPrim_def Get_double_def Get_TfToken_def token_defs)
  have b1: "IsA dualPrim UsdGeomCapsule_1" and b2: "\<not> IsA dualPrim UsdGeomCapsule"
    and b3: "Get_double dualPrim UsdGeomTokens_height (TimeCode 24) = Some 2"
    and b4: "Get_double dualPrim UsdGeomTokens_radiusBottom (TimeCode 24) = Some (1/2)"
    and b5: "Get_double dualPrim UsdGeomTokens_radiusTop (TimeCode 24) = Some (1/2)"
    and b6: "Get_TfToken dualPrim UsdGeomTokens_axis (TimeCode 24) = Some UsdGeomTokens_z"
    by (simp_all add: dualPrim_def Get_double_def Get_TfToken_def token_defs)
  show ?thesis
    by (rule legacy_dual_equivalence [OF a1 a2 a3 a4 a5 b1 b2 b3 b4 b5 b6])
qed

text \<open>
  C6 (as amended). \<open>GetPoints\<close> tries both variants unconditionally, the legacy
  single-radius schema first and the dual-radius schema second, and reads a variant's
  attributes exactly when the primitive is of that type: height, radius, axis for the
  legacy schema, then height, radiusBottom, radiusTop, axis for the dual-radius schema.
  Each parameter is the value the dual-radius schema yields when the primitive is of that
  schema and the read succeeds; failing that, the value the legacy schema yields when the
  primitive is of that schema and the read succeeds (the single radius for both the bottom
  and the top radius); failing that, the built-in default. In particular a primitive of
  the dual-radius schema ends with every value that schema's attributes yield, whether or
  not it also matched the legacy schema, and a primitive of the legacy schema only ends
  with the legacy values.
\<close>

theorem resolution_order:
  "filter is_TypeQuery (events (GetPoints_parameters prim time)) =
     [TypeQuery UsdGeomCapsule, TypeQuery UsdGeomCapsule_1] \<and>
   filter is_AttrRead (events (GetPoints_parameters prim time)) =
     (if IsA prim UsdGeomCapsule
      then [AttrRead UsdGeomTokens_height, AttrRead UsdGeomTokens_radius,
            AttrRead UsdGeomTokens_axis]
      else []) @
     (if IsA prim UsdGeomCapsule_1
      then [AttrRead UsdGeomTokens_height, AttrRead UsdGeomTokens_radiusBottom,
            AttrRead UsdGeomTokens_radiusTop, AttrRead UsdGeomTokens_axis]
      else []) \<and>
   heightOut (GetPoints_parameters prim time) =
     (case (if IsA prim UsdGeomCapsule_1
            then Get_double prim UsdGeomTokens_height time else None) of
        Some h \<Rightarrow> h
      | None \<Rightarrow>
         (case (if IsA prim UsdGeomCapsule
                then Get_double prim UsdGeomTokens_height time else None) of
            Some h \<Rightarrow> h
          | None \<Rightarrow> 2)) \<and>
   radiusBottomOut (GetPoints_parameters prim time) =
     (case (if IsA prim UsdGeomCapsule_1
            then Get_double prim UsdGeomTokens_radiusBottom time else None) of
        Some r \<Rightarrow> r
      | None \<Rightarrow>
         (case (if IsA prim UsdGeomCapsule
                then Get_double prim UsdGeomTokens_radius time else None) of
            Some r \<Rightarrow> r
          | None \<Rightarrow> 1/2)) \<and>
   radiusTopOut (GetPoints_parameters prim time) =
     (case (if IsA prim UsdGeomCapsule_1
            then Get_double prim UsdGeomTokens_radiusTop time else None) of
        Some r \<Rightarrow> r
      | None \<Rightarrow>
         (case (if IsA prim UsdGeomCapsule
                then Get_double prim UsdGeomTokens_radius time else None) of
            Some r \<Rightarrow> r
          | None \<Rightarrow> 1/2)) \<and>
   axisOut (GetPoints_parameters prim time) =
     (case (if IsA prim UsdGeomCapsule_1
            then Get_TfToken prim UsdGeomTokens_axis time else None) of
        Some a \<Rightarrow> a
      | None \<Rightarrow>
         (case (if IsA prim UsdGeomCapsule
                then Get_TfToken prim UsdGeomTokens_axis time else None) of
            Some a \<Rightarrow> a
          | None \<Rightarrow> UsdGeomTokens_z)) \<and>
   (IsA prim UsdGeomCapsule_1 \<longrightarrow>
      (\<forall>h. Get_double prim UsdGeomTokens_height time = Some h \<longrightarrow>
            heightOut (GetPoints_parameters prim time) = h) \<and>
      (\<forall>r. Get_double prim UsdGeomTokens_radiusBottom time = Some r \<longrightarrow>
            radiusBottomOut (GetPoints_parameters prim time) = r) \<and>
      (\<forall>r. Get_double prim UsdGeomTokens_radiusTop time = Some r \<longrightarrow>
            radiusTopOut (GetPoints_parameters prim time) = r) \<and>
      (\<forall>a. Get_TfToken prim UsdGeomTokens_axis time = Some a \<longrightarrow>
            axisOut (GetPoints_parameters prim time) = a)) \<and>
   (IsA prim UsdGeomCapsule \<and> \<not> IsA prim UsdGeomCapsule_1 \<longrightarrow>
      (\<forall>h. Get_double prim UsdGeomTokens_height time = Some h \<longrightarrow>
            heightOut (GetPoints_parameters prim time) = h) \<and>
      (\<forall>r. Get_double prim UsdGeomTokens_radius time = Some r \<longrightarrow>
            radiusBottomOut (GetPoints_parameters prim time) = r \<and>
            radiusTopOut (GetPoints_parameters prim time) = r) \<and>
      (\<forall>a. Get_TfToken prim UsdGeomTokens_axis time = Some a \<longrightarrow>
            axisOut (GetPoints_parameters prim time) = a))"
proof -
  have types: "filter is_TypeQuery (events (GetPoints_parameters prim time)) =
     [TypeQuery UsdGeomCapsule, TypeQuery UsdGeomCapsule_1]"
    by (cases "IsA prim UsdGeomCapsule"; cases "IsA prim UsdGeomCapsule_1")
       (simp_all add: GetPoints_parameters_def Let_def extract_legacy extract_dual
          extract_not_IsA split: option.splits)
  have vals: "
   filter is_AttrRead (events (GetPoints_parameters prim time)) =
     (if IsA prim UsdGeomCapsule
      then [AttrRead UsdGeomTokens_height, AttrRead UsdGeomTokens_radius,
            AttrRead UsdGeomTokens_axis]
      else []) @
     (if IsA prim UsdGeomCapsule_1
      then [AttrRead UsdGeomTokens_height, AttrRead UsdGeomTokens_radiusBottom,
            AttrRead UsdGeomTokens_radiusTop, AttrRead UsdGeomTokens_axis]
      else []) \<and>
   heightOut (GetPoints_parameters prim time) =
     (case (if IsA prim UsdGeomCapsule_1
            then Get_double prim UsdGeomTokens_height time else None) of
        Some h \<Rightarrow> h
      | None \<Rightarrow>
         (case (if IsA prim UsdGeomCapsule
                then Get_double prim UsdGeomTokens_height time else None) of
            Some h \<Rightarrow> h
          | None \<Rightarrow> 2)) \<and>
   radiusBottomOut (GetPoints_parameters prim time) =
     (case (if IsA prim UsdGeomCapsule_1
            then Get_double prim UsdGeomTokens_radiusBottom time else None) of
        Some r \<Rightarrow> r
      | None \<Rightarrow>
         (case (if IsA prim UsdGeomCapsule
                then Get_double prim UsdGeomTokens_radius time else None) of
            Some r \<Rightarrow> r
          | None \<Rightarrow> 1/2)) \<and>
   radiusTopOut (GetPoints_parameters prim time) =
     (case (if IsA prim UsdGeomCapsule_1
            then Get_double prim UsdGeomTokens_radiusTop time else None) of
        Some r \<Rightarrow> r
      | None \<Rightarrow>
         (case (if IsA prim UsdGeomCapsule
                then Get_double prim UsdGeomTokens_radius time else None) of
            Some r \<Rightarrow> r
          | None \<Rightarrow> 1/2)) \<and>
   axisOut (GetPoints_parameters prim time) =
     (case (if IsA prim UsdGeomCapsule_1
            then Get_TfToken prim UsdGeomTokens_axis time else None) of
        Some a \<Rightarrow> a
      | None \<Rightarrow>
         (case (if IsA prim UsdGeomCapsule
                then Get_TfToken prim UsdGeomTokens_axis time else None) of
            Some a \<Rightarrow> a
          | None \<Rightarrow> UsdGeomTokens_z))"
    by (cases "IsA prim UsdGeomCapsule"; cases "IsA prim UsdGeomCapsule_1")
       (simp_all add: GetPoints_parameters_def Let_def extract_legacy extract_dual
          extract_not_IsA split: option.splits)
  have prec: "
   (IsA prim UsdGeomCapsule_1 \<longrightarrow>
      (\<forall>h. Get_double prim UsdGeomTokens_height time = Some h \<longrightarrow>
            heightOut (GetPoints_parameters prim time) = h) \<and>
      (\<forall>r. Get_double prim UsdGeomTokens_radiusBottom time = Some r \<longrightarrow>
            radiusBottomOut (GetPoints_parameters prim time) = r) \<and>
      (\<forall>r. Get_double prim UsdGeomTokens_radiusTop time = Some r \<longrightarrow>
            radiusTopOut (GetPoints_parameters prim time) = r) \<and>
      (\<forall>a. Get_TfToken prim UsdGeomTokens_axis time = Some a \<longrightarrow>
            axisOut (GetPoints_parameters prim time) = a)) \<and>
   (IsA prim UsdGeomCapsule \<and> \<not> IsA prim UsdGeomCapsule_1 \<longrightarrow>
      (\<forall>h. Get_double prim UsdGeomTokens_height time = Some h \<longrightarrow>
            heightOut (GetPoints_parameters prim time) = h) \<and>
      (\<forall>r. Get_double prim UsdGeomTokens_radius time = Some r \<longrightarrow>
            radiusBottomOut (GetPoints_parameters prim time) = r \<and>
            radiusTopOut (GetPoints_parameters prim time) = r) \<and>
      (\<forall>a. Get_TfToken prim UsdGeomTokens_axis time = Some a \<longrightarrow>
            axisOut (GetPoints_parameters prim time) = a))"
  proof (intro conjI)
  show "IsA prim UsdGeomCapsule_1 \<longrightarrow>
      (\<forall>h. Get_double prim UsdGeomTokens_height time = Some h \<longrightarrow>
            heightOut (GetPoints_parameters prim time) = h) \<and>
      (\<forall>r. Get_double prim UsdGeomTokens_radiusBottom time = Some r \<longrightarrow>
            radiusBottomOut (GetPoints_parameters prim time) = r) \<and>
      (\<forall>r. Get_double prim UsdGeomTokens_radiusTop time = Some r \<longrightarrow>
            radiusTopOut (GetPoints_parameters prim time) = r) \<and>
      (\<forall>a. Get_TfToken prim UsdGeomTokens_axis time = Some a \<longrightarrow>
            axisOut (GetPoints_parameters prim time) = a)"
    by (simp add: GetPoints_parameters_def Let_def extract_dual)
next
  show "IsA prim UsdGeomCapsule \<and> \<not> IsA prim UsdGeomCapsule_1 \<longrightarrow>
      (\<forall>h. Get_double prim UsdGeomTokens_height time = Some h \<longrightarrow>
            heightOut (GetPoints_parameters prim time) = h) \<and>
      (\<forall>r. Get_double prim UsdGeomTokens_radius time = Some r \<longrightarrow>
            radiusBottomOut (GetPoints_parameters prim time) = r \<and>
            radiusTopOut (GetPoints_parameters prim time) = r) \<and>
      (\<forall>a. Get_TfToken prim UsdGeomTokens_axis time = Some a \<longrightarrow>
            axisOut (GetPoints_parameters prim time) = a)"
    by (simp add: GetPoints_parameters_def Let_def extract_legacy extract_not_IsA)
  qed
  show ?thesis
    using types vals prec by (intro conjI) blast+
qed

theorem resolution_order_witness:
  "filter is_TypeQuery (events (GetPoints_parameters staleRadiusPrim DefaultTime)) =
     [TypeQuery UsdGeomCapsule, TypeQuery UsdGeomCapsule_1] \<and>
   filter is_AttrRead (events (GetPoints_parameters staleRadiusPrim DefaultTime)) =
     [AttrRead ''height'', AttrRead ''radiusBottom'', AttrRead ''radiusTop'', AttrRead ''axis''] \<and>
   heightOut (GetPoints_parameters staleRadiusPrim DefaultTime) = 3 \<and>
   radiusBottomOut (GetPoints_parameters staleRadiusPrim DefaultTime) = 1/4 \<and>
   radiusTopOut (GetPoints_parameters staleRadiusPrim DefaultTime) = 1/2 \<and>
   axisOut (GetPoints_parameters staleRadiusPrim DefaultTime) = ''Y'' \<and>
   IsA dualPrim UsdGeomCapsule_1 \<and>
   heightOut (GetPoints_parameters dualPrim DefaultTime) = 2 \<and>
   radiusBottomOut (GetPoints_parameters dualPrim DefaultTime) = 1/2 \<and>
   radiusTopOut (GetPoints_parameters dualPrim DefaultTime) = 1/2 \<and>
   axisOut (GetPoints_parameters dualPrim DefaultTime) = ''Z'' \<and>
   IsA animatedHeightPrim UsdGeomCapsule \<and> \<not> IsA animatedHeightPrim UsdGeomCapsule_1 \<and>
   heightOut (GetPoints_parameters animatedHeightPrim (TimeCode 5)) = 5 \<and>
   radiusBottomOut (GetPoints_parameters animatedHeightPrim (TimeCode 5)) = 1/2 \<and>
   radiusTopOut (GetPoints_parameters animatedHeightPrim (TimeCode 5)) = 1/2 \<and>
   axisOut (GetPoints_parameters animatedHeightPrim (TimeCode 5)) = ''Z''"
proof -
  have s: "IsA staleRadiusPrim UsdGeomCapsule_1" "\<not> IsA staleRadiusPrim UsdGeomCapsule"
    "Get_double staleRadiusPrim ''height'' DefaultTime = Some 3"
    "Get_double staleRadiusPrim ''radius'' DefaultTime = Some 7"
    "Get_double staleRadiusPrim ''radiusBottom'' DefaultTime = Some (1/4)"
    "Get_double staleRadiusPrim ''radiusTop'' DefaultTime = None"
    "Get_TfToken staleRadiusPrim ''axis'' DefaultTime = Some ''Y''"
    by (simp_all add: staleRadiusPrim_def Get_double_def Get_TfToken_def)
  have stale:
    "filter is_TypeQuery (events (GetPoints_parameters staleRadiusPrim DefaultTime)) =
       [TypeQuery UsdGeomCapsule, TypeQuery UsdGeomCapsule_1] \<and>
     filter is_AttrRead (events (GetPoints_parameters staleRadiusPrim DefaultTime)) =
       [AttrRead ''height'', AttrRead ''radiusBottom'', AttrRead ''radiusTop'', AttrRead ''axis''] \<and>
     heightOut (GetPoints_parameters staleRadiusPrim DefaultTime) = 3 \<and>
     radiusBottomOut (GetPoints_parameters staleRadiusPrim DefaultTime) = 1/4 \<and>
     radiusTopOut (GetPoints_parameters staleRadiusPrim DefaultTime) = 1/2 \<and>
     axisOut (GetPoints_parameters staleRadiusPrim DefaultTime) = ''Y''"
    using resolution_order [of staleRadiusPrim DefaultTime]
    by (simp add: token_defs s)
  have d: "IsA dualPrim UsdGeomCapsule_1"
    "Get_double dualPrim UsdGeomTokens_height DefaultTime = Some 2"
    "Get_double dualPrim UsdGeomTokens_radiusBottom DefaultTime = Some (1/2)"
    "Get_double dualPrim UsdGeomTokens_radiusTop DefaultTime = Some (1/2)"
    "Get_TfToken dualPrim UsdGeomTokens_axis DefaultTime = Some ''Z''"
    by (simp_all add: dualPrim_def Get_double_def Get_TfToken_def token_defs)
  have l: "IsA animatedHeightPrim UsdGeomCapsule" "\<not> IsA animatedHeightPrim UsdGeomCapsule_1"
    "Get_double animatedHeightPrim UsdGeomTokens_height (TimeCode 5) = Some 5"
    "Get_double animatedHeightPrim UsdGeomTokens_radius (TimeCode 5) = Some (1/2)"
    "Get_TfToken animatedHeightPrim UsdGeomTokens_axis (TimeCode 5) = Some ''Z''"
    by (simp_all add: animatedHeightPrim_def Get_double_def Get_TfToken_def token_defs)
  show ?thesis
    using stale resolution_order [of dualPrim DefaultTime]
      resolution_order [of animatedHeightPrim "TimeCode 5"] d l
    by blast
qed

text \<open>
  C6 as stated fails: for a primitive of the dual-radius schema the first type query is
  the one for the legacy schema, and the legacy schema is queried although the primitive
  matches the newest one.
\<close>

theorem resolution_order_counterexample:
  "take 1 (snd (GetPoints sampleEnv dualPrim DefaultTime)) = [TypeQuery UsdGeomCapsule] \<and>
   \<not> (IsA dualPrim UsdGeomCapsule_1 \<longrightarrow>
        TypeQuery UsdGeomCapsule \<notin> set (snd (GetPoints sampleEnv dualPrim DefaultTime)))"
  by (simp add: GetPoints_def Let_def read_defs dualPrim_def)

subsection \<open>Unreadable attributes and unknown types\<close>

text \<open>
  C8. Parameter reads succeed partially. For a primitive of exactly one of the two
  schemas, each output is the value read from its attribute when the read succeeds and the
  built-in default (height 2, radii 1/2, axis Z) when it fails, independently of the other
  reads; a warning naming the attribute is emitted exactly when its read fails; and all
  attributes of the schema are read, in order, whichever of them fail.
\<close>

theorem partial_reads:
  "(IsA prim UsdGeomCapsule \<and> \<not> IsA prim UsdGeomCapsule_1 \<longrightarrow>
      heightOut (GetPoints_parameters prim time) =
        (case Get_double prim UsdGeomTokens_height time of None \<Rightarrow> 2 | Some h \<Rightarrow> h) \<and>
      radiusBottomOut (GetPoints_parameters prim time) =
        (case Get_double prim UsdGeomTokens_radius time of None \<Rightarrow> 1/2 | Some r \<Rightarrow> r) \<and>
      radiusTopOut (GetPoints_parameters prim time) =
        (case Get_double prim UsdGeomTokens_radius time of None \<Rightarrow> 1/2 | Some r \<Rightarrow> r) \<and>
      axisOut (GetPoints_parameters prim time) =
        (case Get_TfToken prim UsdGeomTokens_axis time of
           None \<Rightarrow> UsdGeomTokens_z | Some a \<Rightarrow> a) \<and>
      (TF_WARN (''Could not evaluate double-valued height attribute on prim '' @ GetPath prim)
          \<in> set (events (GetPoints_parameters prim time))) =
        (Get_double prim UsdGeomTokens_height time = None) \<and>
      (TF_WARN (''Could not evaluate double-valued radius attribute on prim '' @ GetPath prim)
          \<in> set (events (GetPoints_parameters prim time))) =
        (Get_double prim UsdGeomTokens_radius time = None) \<and>
      (TF_WARN (''Could not evaluate token-valued axis attribute on prim '' @ GetPath prim)
          \<in> set (events (GetPoints_parameters prim time))) =
        (Get_TfToken prim UsdGeomTokens_axis time = None) \<and>
      filter is_AttrRead (events (GetPoints_parameters prim time)) =
        [AttrRead UsdGeomTokens_height, AttrRead UsdGeomTokens_radius,
         AttrRead UsdGeomTokens_axis]) \<and>
   (IsA prim UsdGeomCapsule_1 \<and> \<not> IsA prim UsdGeomCapsule \<longrightarrow>
      heightOut (GetPoints_parameters prim time) =
        (case Get_double prim UsdGeomTokens_height time of None \<Rightarrow> 2 | Some h \<Rightarrow> h) \<and>
      radiusBottomOut (GetPoints_parameters prim time) =
        (case Get_double prim UsdGeomTokens_radiusBottom time of None \<Rightarrow> 1/2 | Some r \<Rightarrow> r) \<and>
      radiusTopOut (GetPoints_parameters prim time) =
        (case Get_double prim UsdGeomTokens_radiusTop time of None \<Rightarrow> 1/2 | Some r \<Rightarrow> r) \<and>
      axisOut (GetPoints_parameters prim time) =
        (case Get_TfToken prim UsdGeomTokens_axis time of
           None \<Rightarrow> UsdGeomTokens_z | Some a \<Rightarrow> a) \<and>
      (TF_WARN (''Could not evaluate double-valued height attribute on prim '' @ GetPath prim)
          \<in> set (events (GetPoints_parameters prim time))) =
        (Get_double prim UsdGeomTokens_height time = None) \<and>
      (TF_WARN (''Could not evaluate double-valued bottom radius attribute on prim ''
                @ GetPath prim)
          \<in> set (events (GetPoints_parameters prim time))) =
        (Get_double prim UsdGeomTokens_radiusBottom time = None) \<and>
      (TF_WARN (''Could not evaluate double-valued top radius attribute on prim ''
                @ GetPath prim)
          \<in> set (events (GetPoints_parameters prim time))) =
        (Get_double prim UsdGeomTokens_radiusTop time = None) \<and>
      (TF_WARN (''Could not evaluate token-valued axis attribute on prim '' @ GetPath prim)
          \<in> set (events (GetPoints_parameters prim time))) =
        (Get_TfToken prim UsdGeomTokens_axis time = None) \<and>
      filter is_AttrRead (events (GetPoints_parameters prim time)) =
        [AttrRead UsdGeomTokens_height, AttrRead UsdGeomTokens_radiusBottom,
         AttrRead UsdGeomTokens_radiusTop, AttrRead UsdGeomTokens_axis])"
proof (intro conjI impI; elim conjE)
  assume t: "IsA prim UsdGeomCapsule" "\<not> IsA prim UsdGeomCapsule_1"
  let ?P = "GetPoints_parameters prim time"
  have P: "?P = extractCapsuleParameters UsdGeomCapsule prim time
      \<lparr>heightOut = 2, radiusBottomOut = 1/2, radiusTopOut = 1/2,
       axisOut = UsdGeomTokens_z, events = []\<rparr>
      \<lparr>events := events (extractCapsuleParameters UsdGeomCapsule prim time
      \<lparr>heightOut = 2, radiusBottomOut = 1/2, radiusTopOut = 1/2,
       axisOut = UsdGeomTokens_z, events = []\<rparr>) @ [TypeQuery UsdGeomCapsule_1]\<rparr>"
    using t by (simp add: GetPoints_parameters_def Let_def extract_not_IsA)
  show "heightOut ?P =
        (case Get_double prim UsdGeomTokens_height time of None \<Rightarrow> 2 | Some h \<Rightarrow> h)"
    using t by (auto simp: P extract_legacy split: option.splits)
  show "radiusBottomOut ?P =
        (case Get_double prim UsdGeomTokens_radius time of None \<Rightarrow> 1/2 | Some r \<Rightarrow> r)"
    using t by (auto simp: P extract_legacy split: option.splits)
  show "radiusTopOut ?P =
        (case Get_double prim UsdGeomTokens_radius time of None \<Rightarrow> 1/2 | Some r \<Rightarrow> r)"
    using t by (auto simp: P extract_legacy split: option.splits)
  show "axisOut ?P =
        (case Get_TfToken prim UsdGeomTokens_axis time of
           None \<Rightarrow> UsdGeomTokens_z | Some a \<Rightarrow> a)"
    using t by (auto simp: P extract_legacy split: option.splits)
  show "(TF_WARN (''Could not evaluate double-valued height attribute on prim '' @ GetPath prim)
          \<in> set (events ?P)) =
        (Get_double prim UsdGeomTokens_height time = None)"
    using t by (auto simp: P extract_legacy split: option.splits)
  show "(TF_WARN (''Could not evaluate double-valued radius attribute on prim '' @ GetPath prim)
          \<in> set (events ?P)) =
        (Get_double prim UsdGeomTokens_radius time = None)"
    using t by (auto simp: P extract_legacy split: option.splits)
  show "(TF_WARN (''Could not evaluate token-valued axis attribute on prim '' @ GetPath prim)
          \<in> set (events ?P)) =
        (Get_TfToken prim UsdGeomTokens_axis time = None)"
    using t by (auto simp: P extract_legacy split: option.splits)
  show "filter is_AttrRead (events ?P) =
        [AttrRead UsdGeomTokens_height, AttrRead UsdGeomTokens_radius,
         AttrRead UsdGeomTokens_axis]"
    using t by (auto simp: P extract_legacy split: option.splits)
next
  assume t: "IsA prim UsdGeomCapsule_1" "\<not> IsA prim UsdGeomCapsule"
  let ?P = "GetPoints_parameters prim time"
  have P: "?P = extractCapsuleParameters UsdGeomCapsule_1 prim time
      \<lparr>heightOut = 2, radiusBottomOut = 1/2, radiusTopOut = 1/2,
       axisOut = UsdGeomTokens_z, events = [TypeQuery UsdGeomCapsule]\<rparr>"
    using t by (simp add: GetPoints_parameters_def Let_def extract_not_IsA)
  show "heightOut ?P =
        (case Get_double prim UsdGeomTokens_height time of None \<Rightarrow> 2 | Some h \<Rightarrow> h)"
    using t by (auto simp: P extract_dual split: option.splits)
  show "radiusBottomOut ?P =
        (case Get_double prim UsdGeomTokens_radiusBottom time of None \<Rightarrow> 1/2 | Some r \<Rightarrow> r)"
    using t by (auto simp: P extract_dual split: option.splits)
  show "radiusTopOut ?P =
        (case Get_double prim UsdGeomTokens_radiusTop time of None \<Rightarrow> 1/2 | Some r \<Rightarrow> r)"
    using t by (auto simp: P extract_dual split: option.splits)
  show "axisOut ?P =
        (case Get_TfToken prim UsdGeomTokens_axis time of
           None \<Rightarrow> UsdGeomTokens_z | Some a \<Rightarrow> a)"
    using t by (auto simp: P extract_dual split: option.splits)
  show "(TF_WARN (''Could not evaluate double-valued height attribute on prim '' @ GetPath prim)
          \<in> set (events ?P)) =
        (Get_double prim UsdGeomTokens_height time = None)"
    using t by (auto simp: P extract_dual split: option.splits)
  show "(TF_WARN (''Could not evaluate double-valued bottom radius attribute on prim ''
                @ GetPath prim)
          \<in> set (events ?P)) =
        (Get_double prim UsdGeomTokens_radiusBottom time = None)"
    using t by (auto simp: P extract_dual split: option.splits)
  show "(TF_WARN (''Could not evaluate double-valued top radius attribute on prim ''
                @ GetPath prim)
          \<in> set (events ?P)) =
        (Get_double prim UsdGeomTokens_radiusTop time = None)"
    using t by (auto simp: P extract_dual split: option.splits)
  show "(TF_WARN (''Could not evaluate token-valued axis attribute on prim '' @ GetPath prim)
          \<in> set (events ?P)) =
        (Get_TfToken prim UsdGeomTokens_axis time = None)"
    using t by (auto simp: P extract_dual split: option.splits)
  show "filter is_AttrRead (events ?P) =
        [AttrRead UsdGeomTokens_height, AttrRead UsdGeomTokens_radiusBottom,
         AttrRead UsdGeomTokens_radiusTop, AttrRead UsdGeomTokens_axis]"
    using t by (auto simp: P extract_dual split: option.splits)
qed

theorem partial_reads_witness:
  "IsA legacyPrim UsdGeomCapsule \<and> \<not> IsA legacyPrim UsdGeomCapsule_1 \<and>
   Get_TfToken legacyPrim UsdGeomTokens_axis (TimeCode 3) = None \<and>
   axisOut (GetPoints_parameters legacyPrim (TimeCode 3)) = ''Z'' \<and>
   heightOut (GetPoints_parameters legacyPrim (TimeCode 3)) = 2 \<and>
   radiusBottomOut (GetPoints_parameters legacyPrim (TimeCode 3)) = 1/2 \<and>
   radiusTopOut (GetPoints_parameters legacyPrim (TimeCode 3)) = 1/2 \<and>
   TF_WARN ''Could not evaluate token-valued axis attribute on prim /World/legacy''
     \<in> set (events (GetPoints_parameters legacyPrim (TimeCode 3))) \<and>
   IsA partialPrim UsdGeomCapsule_1 \<and> \<not> IsA partialPrim UsdGeomCapsule \<and>
   Get_double partialPrim UsdGeomTokens_radiusBottom (TimeCode 3) = None \<and>
   radiusBottomOut (GetPoints_parameters partialPrim (TimeCode 3)) = 1/2 \<and>
   heightOut (GetPoints_parameters partialPrim (TimeCode 3)) = 3 \<and>
   radiusTopOut (GetPoints_parameters partialPrim (TimeCode 3)) = 1/4 \<and>
   axisOut (GetPoints_parameters partialPrim (TimeCode 3)) = ''X'' \<and>
   TF_WARN ''Could not evaluate double-valued bottom radius attribute on prim /World/partial''
     \<in> set (events (GetPoints_parameters partialPrim (TimeCode 3))) \<and>
   filter is_AttrRead (events (GetPoints_parameters partialPrim (TimeCode 3))) =
     [AttrRead ''height'', AttrRead ''radiusBottom'', AttrRead ''radiusTop'', AttrRead ''axis'']"
proof -
  have l: "IsA legacyPrim UsdGeomCapsule \<and> \<not> IsA legacyPrim UsdGeomCapsule_1"
    "Get_double legacyPrim ''height'' (TimeCode 3) = Some 2"
    "Get_double legacyPrim ''radius'' (TimeCode 3) = Some (1/2)"
    "Get_TfToken legacyPrim ''axis'' (TimeCode 3) = None"
    "GetPath legacyPrim = ''/World/legacy''"
    by (simp_all add: legacyPrim_def Get_double_def Get_TfToken_def)
  have p: "IsA partialPrim UsdGeomCapsule_1 \<and> \<not> IsA partialPrim UsdGeomCapsule"
    "Get_double partialPrim ''height'' (TimeCode 3) = Some 3"
    "Get_double partialPrim ''radiusBottom'' (TimeCode 3) = None"
    "Get_double partialPrim ''radiusTop'' (TimeCode 3) = Some (1/4)"
    "Get_TfToken partialPrim ''axis'' (TimeCode 3) = Some ''X''"
    "GetPath partialPrim = ''/World/partial''"
    by (simp_all add: partialPrim_def Get_double_def Get_TfToken_def)
  show ?thesis
    using partial_reads [of legacyPrim "TimeCode 3"] partial_reads [of partialPrim "TimeCode 3"]
    by (simp add: l p token_defs)
qed

text \<open>
  C9. Zero-match tolerance. For a primitive of neither capsule schema, the parameters
  stay at the built-in defaults (height 2, both radii 1/2, axis Z), no attribute is read
  and no warning is emitted; and when the generator writes exactly the number of points
  it announces for these defaults, \<open>GetPoints\<close> returns the generator's mesh for them.
\<close>

theorem zero_match_defaults:
  assumes "\<not> IsA prim UsdGeomCapsule" and "\<not> IsA prim UsdGeomCapsule_1"
  shows "GetPoints_parameters prim time =
           \<lparr>heightOut = 2, radiusBottomOut = 1/2, radiusTopOut = 1/2, axisOut = UsdGeomTokens_z,
            events = [TypeQuery UsdGeomCapsule, TypeQuery UsdGeomCapsule_1]\<rparr> \<and>
         (length (GeneratePoints env (numRadial env) (numCapAxial env) (1/2) (1/2) 2 360
                    (GetImplicitBasis env UsdGeomTokens_z))
            = ComputeNumPoints env (numRadial env) (numCapAxial env) \<longrightarrow>
          GetPoints env prim time =
            (Some (VtVec3fArray
               (GeneratePoints env (numRadial env) (numCapAxial env) (1/2) (1/2) 2 360
                  (GetImplicitBasis env UsdGeomTokens_z))),
             [TypeQuery UsdGeomCapsule, TypeQuery UsdGeomCapsule_1]))"
proof -
  have P: "GetPoints_parameters prim time =
           \<lparr>heightOut = 2, radiusBottomOut = 1/2, radiusTopOut = 1/2, axisOut = UsdGeomTokens_z,
            events = [TypeQuery UsdGeomCapsule, TypeQuery UsdGeomCapsule_1]\<rparr>"
    using assms by (simp add: GetPoints_parameters_def Let_def extract_not_IsA)
  show ?thesis
    by (simp add: P GetPoints_def Let_def write_through_iterator_eq)
qed

theorem zero_match_defaults_witness:
  "\<not> IsA otherPrim UsdGeomCapsule \<and> \<not> IsA otherPrim UsdGeomCapsule_1 \<and>
   GetPoints_parameters otherPrim DefaultTime =
     \<lparr>heightOut = 2, radiusBottomOut = 1/2, radiusTopOut = 1/2, axisOut = ''Z'',
      events = [TypeQuery UsdGeomCapsule, TypeQuery UsdGeomCapsule_1]\<rparr> \<and>
   GetPoints sampleEnv otherPrim DefaultTime =
     (Some (VtVec3fArray (replicate 8 (1/2, 1/2, 2))),
      [TypeQuery UsdGeomCapsule, TypeQuery UsdGeomCapsule_1])"
proof -
  have a: "\<not> IsA otherPrim UsdGeomCapsule" and b: "\<not> IsA otherPrim UsdGeomCapsule_1"
    by (simp_all add: otherPrim_def)
  have g: "GeneratePoints sampleEnv (numRadial sampleEnv) (numCapAxial sampleEnv) (1/2) (1/2) 2 360
             (GetImplicitBasis sampleEnv ''Z'') = replicate 8 (1/2, 1/2, 2)"
    and n: "ComputeNumPoints sampleEnv (numRadial sampleEnv) (numCapAxial sampleEnv) = 8"
    by (simp_all add: sampleEnv_def eval_nat_numeral)
  show ?thesis
    using zero_match_defaults [OF a b, of DefaultTime sampleEnv] a b
    unfolding g n UsdGeomTokens_z_def by simp
qed

text \<open>
  C10. \<open>GetPoints\<close> always asks for a full revolution: the sweep it hands to the point
  generator is the constant 360. Hence replacing the generator by any other one that
  agrees with it at sweep 360 changes nothing, for every primitive and time.
\<close>

theorem GetPoints_full_sweep:
  "((\<forall>nr nc rb rt h b. g nr nc rb rt h 360 b = GeneratePoints env nr nc rb rt h 360 b) \<longrightarrow>
      GetPoints (env\<lparr>GeneratePoints := g\<rparr>) prim time = GetPoints env prim time) \<and>
   fst (GetPoints env prim time) =
     map_option VtVec3fArray
       (write_through_iterator
          (replicate (ComputeNumPoints env (numRadial env) (numCapAxial env)) (0, 0, 0))
          (GeneratePoints env (numRadial env) (numCapAxial env)
             (radiusBottomOut (GetPoints_parameters prim time))
             (radiusTopOut (GetPoints_parameters prim time))
             (heightOut (GetPoints_parameters prim time))
             360
             (GetImplicitBasis env (axisOut (GetPoints_parameters prim time)))))"
  by (simp add: GetPoints_def Let_def)

theorem GetPoints_full_sweep_witness:
  "GetPoints (sampleEnv\<lparr>GeneratePoints :=
       (\<lambda>r c rb rt h sw b. replicate (2 * c * r + 2) (rb, rt, h))\<rparr>) partialPrim (TimeCode 2)
     = GetPoints sampleEnv partialPrim (TimeCode 2)"
proof -
  have agree: "\<forall>nr nc rb rt h b.
      (\<lambda>r c rb rt h sw b. replicate (2 * c * r + 2) (rb, rt, h)) nr nc rb rt h 360 b =
        GeneratePoints sampleEnv nr nc rb rt h 360 b"
    by (simp add: sampleEnv_def)
  show ?thesis
    using GetPoints_full_sweep
      [of "\<lambda>r c rb rt h sw b. replicate (2 * c * r + 2) (rb, rt, h)" sampleEnv
          partialPrim "TimeCode 2"] agree
    by blast
qed

end
